theory Spec2Isabelle
  imports Complex_Main
begin

section \<open>Data model\<close>

text \<open>
  The TypeScript interface \<^verbatim>\<open>Clip\<close> of VideoPlayer.tsx, Timeline.tsx and App.tsx.
  A JavaScript \<^verbatim>\<open>number\<close> is modelled as an exact rational: rounding, NaN and the
  infinities of IEEE doubles are outside this development. The field \<^verbatim>\<open>id\<close> is
  called \<open>id_clip\<close>, since \<open>id\<close> is the identity function of HOL.
\<close>

record Clip =
  id_clip :: string
  source_file :: string
  start :: rat
  duration :: rat
  track_id :: string

text \<open>
  The interface \<^verbatim>\<open>TimelineState\<close> of App.tsx and Timeline.tsx. Its field
  \<^verbatim>\<open>duration\<close> is called \<open>duration_ts\<close>, to keep it apart from the field of a clip.
\<close>

record TimelineState =
  clips_ts :: "Clip list"
  duration_ts :: rat
  playhead_time :: rat
  version :: nat

section \<open>The active-clip resolver\<close>

text \<open>
  The test of the loop body of \<^verbatim>\<open>getActiveClip\<close>:
  \<^verbatim>\<open>clip.start <= time && time < clip.start + clip.duration\<close>.
\<close>

definition covers :: "rat \<Rightarrow> Clip \<Rightarrow> bool" where
  "covers time clip \<longleftrightarrow> start clip \<le> time \<and> time < start clip + duration clip"

text \<open>
  \<^verbatim>\<open>[...clips].sort((a, b) => a.start - b.start)\<close>: the comparator orders by
  \<^verbatim>\<open>start\<close>, and \<^verbatim>\<open>Array.prototype.sort\<close> is stable, so the outcome is the
  stable sort by the key \<open>start\<close>, which is what \<open>sort_key\<close> computes.
\<close>

definition sorted_clips :: "Clip list \<Rightarrow> Clip list" where
  "sorted_clips clips = sort_key start clips"

text \<open>
  \<^verbatim>\<open>for (const clip of sorted) { if (...) return clip; } return null;\<close>
\<close>

definition getActiveClip :: "Clip list \<Rightarrow> rat \<Rightarrow> Clip option" where
  "getActiveClip clips time = List.find (covers time) (sorted_clips clips)"

section \<open>The resolver on a store of arrays\<close>

text \<open>
  JavaScript arrays are mutable objects reached through references, and
  \<^verbatim>\<open>Array.prototype.sort\<close> sorts the array it is called on in place. To say what
  \<^verbatim>\<open>getActiveClip\<close> does to its argument, the arrays live in a store: the list of all
  arrays allocated so far, a reference being an index into it. The function writes no field
  of a clip, so a clip is stored by value.
\<close>

type_synonym store = "Clip list list"

text \<open>\<^verbatim>\<open>[...clips]\<close> allocates a new array with the elements of \<^verbatim>\<open>clips\<close>.\<close>

definition spread :: "store \<Rightarrow> nat \<Rightarrow> store \<times> nat" where
  "spread h r = (h @ [h ! r], length h)"

text \<open>\<^verbatim>\<open>a.sort(cmp)\<close> overwrites the array \<^verbatim>\<open>a\<close> and returns the same reference.\<close>

definition sort_in_place :: "store \<Rightarrow> nat \<Rightarrow> store \<times> nat" where
  "sort_in_place h r = (h[r := sort_key start (h ! r)], r)"

text \<open>
  \<^verbatim>\<open>getActiveClip\<close> with its effects on the store. The argument \<open>clips_ref\<close> is the
  reference held by the caller; the result is \<open>None\<close> for a number that is not a reference
  of the store (which no JavaScript value is).
\<close>

definition getActiveClip_store ::
    "store \<Rightarrow> nat \<Rightarrow> rat \<Rightarrow> (store \<times> Clip option) option" where
  "getActiveClip_store h clips_ref time =
     (if clips_ref < length h then
        (let (h1, copy) = spread h clips_ref;
             (h2, sorted) = sort_in_place h1 copy
         in Some (h2, List.find (covers time) (h2 ! sorted)))
      else None)"

section \<open>The timeline component: pixels and seconds\<close>

text \<open>\<^verbatim>\<open>const PIXELS_PER_SECOND = 50;\<close>\<close>

definition PIXELS_PER_SECOND :: rat where
  "PIXELS_PER_SECOND = 50"

text \<open>
  The position of the playhead cursor and of a clip on the timeline surface:
  \<^verbatim>\<open>left: `${playheadTime * PIXELS_PER_SECOND}px`\<close>.
\<close>

definition timeToPixel :: "rat \<Rightarrow> rat" where
  "timeToPixel t = t * PIXELS_PER_SECOND"

text \<open>
  What \<^verbatim>\<open>handleTimelineClick\<close> reads of the mouse event: \<^verbatim>\<open>e.clientX\<close>, the left edge
  of \<^verbatim>\<open>e.currentTarget.getBoundingClientRect()\<close> and \<^verbatim>\<open>e.currentTarget.scrollLeft\<close>.
\<close>

record MouseEvent =
  clientX :: rat
  rect_left :: rat
  scrollLeft :: rat

text \<open>
  \<^verbatim>\<open>timelineState?.duration || 0\<close>: \<open>0\<close> when there is no timeline state, and when the
  duration is falsy, which for an exact number means \<open>0\<close>.
\<close>

definition maxTime :: "TimelineState option \<Rightarrow> rat" where
  "maxTime timelineState =
     (case timelineState of
        None \<Rightarrow> 0
      | Some s \<Rightarrow> (if duration_ts s = 0 then 0 else duration_ts s))"

text \<open>
  The seek target that \<^verbatim>\<open>handleTimelineClick\<close> derives from the x-coordinate:
  \<^verbatim>\<open>time = x / PIXELS_PER_SECOND\<close>, then
  \<^verbatim>\<open>clampedTime = Math.max(0, Math.min(time, maxTime))\<close>.
\<close>

definition pixelToTime :: "TimelineState option \<Rightarrow> rat \<Rightarrow> rat" where
  "pixelToTime timelineState x =
     (let time = x / PIXELS_PER_SECOND
      in max 0 (min time (maxTime timelineState)))"

text \<open>The calls a component makes to its environment, in the order it makes them.\<close>

datatype call =
    OnSeek rat
  | OnPlayheadChange rat
  | OnPlayingChange bool
  | RequestAnimationFrame
  | CancelAnimationFrame nat

text \<open>
  \<^verbatim>\<open>handleTimelineClick\<close>: the x-coordinate is
  \<^verbatim>\<open>e.clientX - rect.left + e.currentTarget.scrollLeft\<close>, and the handler ends with
  \<^verbatim>\<open>onSeek(clampedTime)\<close>. It has no other exit.
\<close>

definition handleTimelineClick :: "TimelineState option \<Rightarrow> MouseEvent \<Rightarrow> call list" where
  "handleTimelineClick timelineState e =
     (let x = clientX e - rect_left e + scrollLeft e;
          time = x / PIXELS_PER_SECOND;
          clampedTime = max 0 (min time (maxTime timelineState))
      in [OnSeek clampedTime])"

section \<open>The video player component\<close>

text \<open>
  What the player reads and writes of the \<^verbatim>\<open>HTMLVideoElement\<close>: the source URL, the
  elapsed position \<^verbatim>\<open>currentTime\<close>, and whether it is paused.
\<close>

record HTMLVideoElement =
  src :: string
  currentTime :: rat
  paused :: bool

definition play :: "HTMLVideoElement \<Rightarrow> HTMLVideoElement" where
  "play v = v\<lparr>paused := False\<rparr>"

definition pause :: "HTMLVideoElement \<Rightarrow> HTMLVideoElement" where
  "pause v = v\<lparr>paused := True\<rparr>"

text \<open>
  The data props of \<^verbatim>\<open>VideoPlayer\<close>; the two callback props appear as the calls
  \<open>OnPlayheadChange\<close> and \<open>OnPlayingChange\<close>.
\<close>

record VideoPlayerProps =
  clips :: "Clip list"
  playheadTime :: rat
  isPlaying :: bool

text \<open>
  The state of the component: the \<^verbatim>\<open>useState\<close> cells \<^verbatim>\<open>error\<close> and
  \<^verbatim>\<open>currentClipId\<close>, and the refs \<^verbatim>\<open>videoRef\<close> (\<open>None\<close> while no
  \<^verbatim>\<open>video\<close> element is mounted) and \<^verbatim>\<open>animationFrameRef\<close>.
\<close>

record VideoPlayerState =
  error :: "string option"
  currentClipId :: "string option"
  videoRef :: "HTMLVideoElement option"
  animationFrameRef :: "nat option"

text \<open>\<^verbatim>\<open>const activeClip = getActiveClip(clips, playheadTime);\<close>\<close>

definition activeClip :: "VideoPlayerProps \<Rightarrow> Clip option" where
  "activeClip p = getActiveClip (clips p) (playheadTime p)"

text \<open>
  The effect "update video source when active clip changes". The platform function
  \<^verbatim>\<open>convertFileSrc\<close> is a parameter.
\<close>

definition clipChangeEffect ::
    "(string \<Rightarrow> string) \<Rightarrow> VideoPlayerProps \<Rightarrow> VideoPlayerState \<Rightarrow> VideoPlayerState" where
  "clipChangeEffect convertFileSrc p st =
     (case activeClip p of
        None \<Rightarrow> st\<lparr>currentClipId := None\<rparr>
      | Some ac \<Rightarrow>
          (if Some (id_clip ac) \<noteq> currentClipId st then
             (let st1 = st\<lparr>currentClipId := Some (id_clip ac), error := None\<rparr>
              in case videoRef st of
                   None \<Rightarrow> st1
                 | Some v \<Rightarrow>
                     (let url = convertFileSrc (source_file ac);
                          v1 = v\<lparr>src := url\<rparr>;
                          offsetInClip = playheadTime p - start ac;
                          clampedOffset = max 0 offsetInClip;
                          v2 = v1\<lparr>currentTime := clampedOffset\<rparr>;
                          v3 = (if isPlaying p then play v2 else v2)
                      in st1\<lparr>videoRef := Some v3\<rparr>))
           else st))"

text \<open>The effect "sync video position when playhead changes externally".\<close>

definition driftSyncEffect :: "VideoPlayerProps \<Rightarrow> VideoPlayerState \<Rightarrow> VideoPlayerState" where
  "driftSyncEffect p st =
     (case activeClip p of
        None \<Rightarrow> st
      | Some ac \<Rightarrow>
          (case videoRef st of
             None \<Rightarrow> st
           | Some v \<Rightarrow>
               (let offsetInClip = playheadTime p - start ac;
                    currentVideoTime = currentTime v
                in if \<bar>currentVideoTime - offsetInClip\<bar> > 1 / 10
                   then st\<lparr>videoRef := Some (v\<lparr>currentTime := max 0 offsetInClip\<rparr>)\<rparr>
                   else st)))"

text \<open>
  The per-frame callback \<^verbatim>\<open>updatePlayhead\<close>. The handle \<open>h\<close> is what
  \<^verbatim>\<open>requestAnimationFrame\<close> returns when it is called.
\<close>

definition updatePlayhead ::
    "nat \<Rightarrow> VideoPlayerProps \<Rightarrow> VideoPlayerState \<Rightarrow> VideoPlayerState \<times> call list" where
  "updatePlayhead h p st =
     (case videoRef st of
        None \<Rightarrow> (st, [])
      | Some v \<Rightarrow>
          (case activeClip p of
             None \<Rightarrow> (st, [])
           | Some ac \<Rightarrow>
               (if \<not> isPlaying p then (st, [])
                else
                  (let videoTime = currentTime v;
                       newPlayheadTime = start ac + videoTime
                   in if videoTime \<ge> duration ac then
                        (case getActiveClip (clips p) (start ac + duration ac + 1 / 100) of
                           Some nextClip \<Rightarrow>
                             (st\<lparr>animationFrameRef := Some h\<rparr>,
                              [OnPlayheadChange (start nextClip), RequestAnimationFrame])
                         | None \<Rightarrow> (st, [OnPlayingChange False]))
                      else
                        (st\<lparr>animationFrameRef := Some h\<rparr>,
                         [OnPlayheadChange newPlayheadTime, RequestAnimationFrame])))))"

text \<open>
  \<^verbatim>\<open>if (animationFrameRef.current) cancelAnimationFrame(animationFrameRef.current)\<close>:
  the handle \<open>0\<close> is falsy.
\<close>

definition cancelPending :: "VideoPlayerState \<Rightarrow> call list" where
  "cancelPending st =
     (case animationFrameRef st of
        None \<Rightarrow> []
      | Some h \<Rightarrow> (if h \<noteq> 0 then [CancelAnimationFrame h] else []))"

text \<open>The effect "start/stop playback loop", and the cleanup it returns.\<close>

definition playbackLoopEffect ::
    "nat \<Rightarrow> VideoPlayerProps \<Rightarrow> VideoPlayerState \<Rightarrow> VideoPlayerState \<times> call list" where
  "playbackLoopEffect h p st =
     (case videoRef st of
        None \<Rightarrow> (st, [])
      | Some v \<Rightarrow>
          (if isPlaying p then
             (st\<lparr>videoRef := Some (play v), animationFrameRef := Some h\<rparr>,
              [RequestAnimationFrame])
           else
             (st\<lparr>videoRef := Some (pause v)\<rparr>, cancelPending st)))"

definition playbackLoopCleanup :: "VideoPlayerState \<Rightarrow> call list" where
  "playbackLoopCleanup st = cancelPending st"

text \<open>
  \<^verbatim>\<open>clips.reduce((max, c) => Math.max(max, c.start + c.duration), 0)\<close>
\<close>

definition totalDuration :: "Clip list \<Rightarrow> rat" where
  "totalDuration cs = foldl (\<lambda>m c. max m (start c + duration c)) 0 cs"


text \<open>
  What the component returns, in the order of its \<^verbatim>\<open>return\<close> statements: the
  placeholder for no clips, the placeholder for a gap, the error panel, and otherwise the
  view holding \<^verbatim>\<open><video ref={videoRef}>\<close>. Only the last one contains a video element.
\<close>

datatype view = NoClipsPlaceholder | GapPlaceholder | ErrorPanel | VideoView

definition render :: "VideoPlayerProps \<Rightarrow> VideoPlayerState \<Rightarrow> view" where
  "render p st =
     (if clips p = [] then NoClipsPlaceholder
      else if activeClip p = None then GapPlaceholder
      else if error st \<noteq> None then ErrorPanel
      else VideoView)"

text \<open>
  A newly created \<^verbatim>\<open>video\<close> element: no source, position 0, paused.
\<close>

definition fresh_video :: HTMLVideoElement where
  "fresh_video = \<lparr>src = [], currentTime = 0, paused = True\<rparr>"

text \<open>
  What React does with \<^verbatim>\<open>ref={videoRef}\<close> when it commits a render, before the effects
  run: the ref holds the element while the video view is shown (a new element when the view
  has just appeared), and \<^verbatim>\<open>null\<close> while any other view is shown.
\<close>

definition commitRef :: "VideoPlayerProps \<Rightarrow> VideoPlayerState \<Rightarrow> VideoPlayerState" where
  "commitRef p st =
     (if render p st = VideoView then
        (case videoRef st of
           None \<Rightarrow> st\<lparr>videoRef := Some fresh_video\<rparr>
         | Some v \<Rightarrow> st)
      else st\<lparr>videoRef := None\<rparr>)"

section \<open>The application component\<close>

text \<open>
  The state of \<^verbatim>\<open>App\<close>: the last broadcast snapshot and the playback intent
  (\<^verbatim>\<open>isPlaying\<close>, here \<open>isPlaying_app\<close>).
\<close>

record App =
  timelineState :: "TimelineState option"
  isPlaying_app :: bool

text \<open>A command sent to the backend with \<^verbatim>\<open>invoke\<close>.\<close>

datatype invoke = Seek_timeline rat

text \<open>
  \<^verbatim>\<open>seekTo\<close> sends \<^verbatim>\<open>seek_timeline\<close> and changes no local state; the listener of
  \<^verbatim>\<open>STATE_UPDATE\<close> replaces the snapshot with the payload.
\<close>

definition seekTo :: "rat \<Rightarrow> invoke list" where
  "seekTo time = [Seek_timeline time]"

definition onStateUpdate :: "TimelineState \<Rightarrow> App \<Rightarrow> App" where
  "onStateUpdate payload app = app\<lparr>timelineState := Some payload\<rparr>"

text \<open>
  The props that \<^verbatim>\<open>App\<close> passes to the player:
  \<^verbatim>\<open>clips={timelineState?.clips || []}\<close>,
  \<^verbatim>\<open>playheadTime={timelineState?.playhead_time ?? 0}\<close>, \<^verbatim>\<open>isPlaying={isPlaying}\<close>.
\<close>

definition videoPlayerProps :: "App \<Rightarrow> VideoPlayerProps" where
  "videoPlayerProps app =
     \<lparr>clips = (case timelineState app of None \<Rightarrow> [] | Some s \<Rightarrow> clips_ts s),
      playheadTime = (case timelineState app of None \<Rightarrow> 0 | Some s \<Rightarrow> playhead_time s),
      isPlaying = isPlaying_app app\<rparr>"

text \<open>
  The callback props: \<^verbatim>\<open>onPlayheadChange={seekTo}\<close> and
  \<^verbatim>\<open>onPlayingChange={setIsPlaying}\<close>. The other calls do not go to \<^verbatim>\<open>App\<close>.
\<close>

fun appCallback :: "call \<Rightarrow> App \<Rightarrow> App \<times> invoke list" where
  "appCallback (OnPlayheadChange time) app = (app, seekTo time)"
| "appCallback (OnPlayingChange playing) app = (app\<lparr>isPlaying_app := playing\<rparr>, [])"
| "appCallback (OnSeek time) app = (app, seekTo time)"
| "appCallback _ app = (app, [])"

section \<open>The specification's words\<close>

text \<open>The clamp of the specification, \<open>clamp(x, lo, hi)\<close>.\<close>

definition clamp :: "rat \<Rightarrow> rat \<Rightarrow> rat \<Rightarrow> rat" where
  "clamp x lo hi = max lo (min x hi)"

section \<open>Concrete scenarios\<close>

text \<open>
  A clip literal for the concrete scenarios: identifier, start and duration are given, the
  source file is the identifier with the suffix \<open>.mp4\<close>, and the track is \<open>track-1\<close>.
\<close>

definition clip_lit :: "string \<Rightarrow> rat \<Rightarrow> rat \<Rightarrow> Clip" where
  "clip_lit i s d =
     \<lparr>id_clip = i, source_file = i @ ''.mp4'', start = s, duration = d, track_id = ''track-1''\<rparr>"

text \<open>
  The other literals of the scenarios: a stand-in for the platform's \<^verbatim>\<open>convertFileSrc\<close>,
  the props of the player, a playing video element and a mounted player bound to the clip
  of a given identifier at a given elapsed position, a broadcast snapshot, the application
  state holding it, and a click on the timeline surface whose left edge is at 100 pixels.
\<close>

definition asset_url :: "string \<Rightarrow> string" where
  "asset_url path = ''asset://localhost/'' @ path"

definition props_lit :: "Clip list \<Rightarrow> rat \<Rightarrow> bool \<Rightarrow> VideoPlayerProps" where
  "props_lit cs t playing = \<lparr>clips = cs, playheadTime = t, isPlaying = playing\<rparr>"

definition video_lit :: "string \<Rightarrow> rat \<Rightarrow> HTMLVideoElement" where
  "video_lit i elapsed = \<lparr>src = asset_url (i @ ''.mp4''), currentTime = elapsed, paused = False\<rparr>"

definition player_lit :: "string \<Rightarrow> rat \<Rightarrow> VideoPlayerState" where
  "player_lit i elapsed =
     \<lparr>error = None, currentClipId = Some i, videoRef = Some (video_lit i elapsed),
      animationFrameRef = None\<rparr>"

text \<open>
  A player showing the error panel after a failure on the clip of the given identifier: the
  \<^verbatim>\<open>onError\<close> handler has stored its message, and no video element is mounted.
\<close>

definition errored_lit :: "string \<Rightarrow> VideoPlayerState" where
  "errored_lit i =
     \<lparr>error = Some ''Playback failed. Decode error.'', currentClipId = Some i,
      videoRef = None, animationFrameRef = None\<rparr>"

definition timeline_lit :: "Clip list \<Rightarrow> rat \<Rightarrow> nat \<Rightarrow> TimelineState" where
  "timeline_lit cs t ver =
     \<lparr>clips_ts = cs, duration_ts = totalDuration cs, playhead_time = t, version = ver\<rparr>"

definition app_lit :: "Clip list \<Rightarrow> rat \<Rightarrow> bool \<Rightarrow> App" where
  "app_lit cs t playing = \<lparr>timelineState = Some (timeline_lit cs t 2), isPlaying_app = playing\<rparr>"

definition click_lit :: "rat \<Rightarrow> MouseEvent" where
  "click_lit x = \<lparr>clientX = x, rect_left = 100, scrollLeft = 0\<rparr>"

text \<open>
  The clips of the scenarios: \<open>a = [0, 5)\<close>, \<open>b = [5, 8)\<close> abutting it, \<open>c = [0, 4)\<close>,
  and a clip \<open>[3, 13)\<close> on a second track that overlaps \<open>a\<close>.
\<close>

definition scenario_a :: Clip where "scenario_a = clip_lit ''a'' 0 5"

definition scenario_b :: Clip where "scenario_b = clip_lit ''b'' 5 3"


definition overlap_b :: Clip where "overlap_b = (clip_lit ''b'' 3 10)\<lparr>track_id := ''track-2''\<rparr>"

section \<open>Facts about the resolver\<close>

lemma find_as_filter:
  "List.find P xs = (case filter P xs of [] \<Rightarrow> None | x # _ \<Rightarrow> Some x)"
  by (induction xs) auto

lemma sorted_sorted_clips: "sorted (map start (sorted_clips cs))"
  by (simp add: sorted_clips_def)

lemma set_sorted_clips: "set (sorted_clips cs) = set cs"
  by (simp add: sorted_clips_def)

lemma getActiveClip_None_iff:
  "getActiveClip cs t = None \<longleftrightarrow> (\<forall>c \<in> set cs. \<not> covers t c)"
  by (auto simp: getActiveClip_def find_None_iff set_sorted_clips)

lemma getActiveClip_Some_covers:
  assumes "getActiveClip cs t = Some c"
  shows "c \<in> set cs" and "covers t c"
proof -
  from assms have "c \<in> set (sorted_clips cs)"
    by (auto simp: getActiveClip_def find_Some_iff)
  then show "c \<in> set cs" by (simp add: set_sorted_clips)
  from assms show "covers t c"
    by (auto simp: getActiveClip_def find_Some_iff)
qed

lemma getActiveClip_Some_least:
  assumes res: "getActiveClip cs t = Some c"
    and c': "c' \<in> set cs" "covers t c'"
  shows "start c \<le> start c'"
proof -
  let ?s = "sorted_clips cs"
  from res obtain i where i: "i < length ?s" "?s ! i = c" "\<forall>j<i. \<not> covers t (?s ! j)"
    by (auto simp: getActiveClip_def find_Some_iff)
  from c'(1) have "c' \<in> set ?s" by (simp add: set_sorted_clips)
  then obtain k where k: "k < length ?s" "?s ! k = c'"
    by (auto simp: in_set_conv_nth)
  from i(3) k(2) c'(2) have "i \<le> k"
    by (metis not_le_imp_less)
  with sorted_sorted_clips [of cs] k(1) have "map start ?s ! i \<le> map start ?s ! k"
    by (simp add: sorted_iff_nth_mono del: nth_map)
  with i k show ?thesis by simp
qed

lemma getActiveClip_Some_first:
  assumes res: "getActiveClip cs t = Some c"
  shows "List.find (\<lambda>c'. covers t c' \<and> start c' = start c) cs = Some c"
proof -
  let ?s = "sorted_clips cs"
  let ?k = "\<lambda>c'. start c' = start c"
  from res obtain rest where f: "filter (covers t) ?s = c # rest"
    by (auto simp: getActiveClip_def find_as_filter split: list.splits)
  have "filter (\<lambda>c'. covers t c' \<and> ?k c') cs = filter (covers t) (filter ?k cs)"
    by (simp add: conj_commute)
  also have "filter ?k cs = filter ?k ?s"
    by (simp add: sorted_clips_def sort_key_stable)
  also have "filter (covers t) (filter ?k ?s) = filter ?k (filter (covers t) ?s)"
    by (simp add: conj_commute)
  also have "\<dots> = c # filter ?k rest"
    by (simp add: f)
  finally show ?thesis
    by (simp add: find_as_filter)
qed

lemma getActiveClip_unique:
  assumes b: "b \<in> set cs" "covers t b"
    and only: "\<forall>c \<in> set cs. covers t c \<longrightarrow> c = b"
  shows "getActiveClip cs t = Some b"
proof (cases "getActiveClip cs t")
  case None
  with b show ?thesis by (simp add: getActiveClip_None_iff)
next
  case (Some c)
  with only getActiveClip_Some_covers [OF Some] show ?thesis by simp
qed

text \<open>
  Sorting in place does change the array it is given: had the resolver sorted its argument
  instead of a copy, the caller's \<open>[b, a]\<close> would have become \<open>[a, b]\<close>.
\<close>

lemma sort_in_place_overwrites:
  "sort_in_place [[scenario_b, scenario_a]] 0 = ([[scenario_a, scenario_b]], 0)"
  by (simp add: sort_in_place_def scenario_a_def scenario_b_def clip_lit_def)

section \<open>Facts about the components\<close>

lemma activeClip_bounds:
  assumes "activeClip p = Some ac"
  shows "start ac \<le> playheadTime p" and "playheadTime p < start ac + duration ac"
  using getActiveClip_Some_covers(2) [of "clips p" "playheadTime p" ac] assms
  by (simp_all add: activeClip_def covers_def)


text \<open>Unfolding the literals and the resolver on concrete inputs.\<close>

lemmas lit_defs = asset_url_def props_lit_def video_lit_def player_lit_def timeline_lit_def
  app_lit_def scenario_a_def scenario_b_def overlap_b_def clip_lit_def

lemmas resolve_defs = activeClip_def getActiveClip_def sorted_clips_def covers_def

section \<open>Claims about the resolver\<close>

text \<open>
  C1. For every clip list and every time \<open>t\<close>, the resolver returns none exactly when no
  clip's half-open interval \<open>[start, start + duration)\<close> contains \<open>t\<close>. Otherwise it
  returns a clip of the list whose interval contains \<open>t\<close>, whose start is least among all
  clips containing \<open>t\<close> (under overlap the earliest-starting match wins), and which, among
  the matching clips of that same start, comes first in the given list (the sort is stable).
\<close>

theorem getActiveClip_spec:
  "(getActiveClip cs t = None \<longleftrightarrow> (\<forall>c \<in> set cs. \<not> covers t c)) \<and>
   (\<forall>c. getActiveClip cs t = Some c \<longrightarrow>
      c \<in> set cs \<and> start c \<le> t \<and> t < start c + duration c \<and>
      (\<forall>c' \<in> set cs. covers t c' \<longrightarrow> start c \<le> start c') \<and>
      List.find (\<lambda>c'. covers t c' \<and> start c' = start c) cs = Some c)"
proof (intro conjI allI impI ballI)
  show "getActiveClip cs t = None \<longleftrightarrow> (\<forall>c \<in> set cs. \<not> covers t c)"
    by (rule getActiveClip_None_iff)
next
  fix c assume res: "getActiveClip cs t = Some c"
  show "c \<in> set cs" by (rule getActiveClip_Some_covers(1) [OF res])
  from getActiveClip_Some_covers(2) [OF res]
  show "start c \<le> t" and "t < start c + duration c"
    by (simp_all add: covers_def)
  show "List.find (\<lambda>c'. covers t c' \<and> start c' = start c) cs = Some c"
    by (rule getActiveClip_Some_first [OF res])
  fix c' assume "c' \<in> set cs" "covers t c'"
  with res show "start c \<le> start c'" by (rule getActiveClip_Some_least)
qed

text \<open>
  The theorem at the overlapping clips \<open>b = [3, 13)\<close> and \<open>a = [0, 5)\<close>, listed in this
  order, and \<open>t = 4\<close>: both contain \<open>4\<close>, and the earlier-starting \<open>a\<close> is returned.
\<close>

theorem getActiveClip_spec_witness:
  "getActiveClip [clip_lit ''b'' 3 10, clip_lit ''a'' 0 5] 4 = Some (clip_lit ''a'' 0 5) \<and>
   covers 4 (clip_lit ''b'' 3 10) \<and>
   start (clip_lit ''a'' 0 5) \<le> start (clip_lit ''b'' 3 10) \<and>
   getActiveClip [clip_lit ''a'' 0 5] 6 = None \<and>
   \<not> covers 6 (clip_lit ''a'' 0 5)"
proof -
  let ?a = "clip_lit ''a'' 0 5" and ?b = "clip_lit ''b'' 3 10"
  have r: "getActiveClip [?b, ?a] 4 = Some ?a"
    by (simp add: getActiveClip_def sorted_clips_def covers_def clip_lit_def)
  have cb: "covers 4 ?b"
    by (simp add: covers_def clip_lit_def)
  have n: "getActiveClip [?a] 6 = None"
    by (simp add: getActiveClip_def sorted_clips_def covers_def clip_lit_def)
  from getActiveClip_spec [of "[?b, ?a]" 4] r
  have "\<forall>c' \<in> set [?b, ?a]. covers 4 c' \<longrightarrow> start ?a \<le> start c'"
    by blast
  with cb have le: "start ?a \<le> start ?b" by simp
  from getActiveClip_spec [of "[?a]" 6] n
  have "\<forall>c \<in> set [?a]. \<not> covers 6 c" by blast
  then have nc: "\<not> covers 6 ?a" by simp
  from r cb le n nc show ?thesis by simp
qed

text \<open>
  C10. The resolver never changes its input: on the store of arrays, the run allocates one
  new array (the copy made by the spread, which is the one that gets sorted), returns what
  the pure resolver returns on the contents of the input array, and leaves every array
  that existed before, the input among them, with the same elements in the same order.
\<close>

theorem getActiveClip_store_frame:
  assumes r: "r < length h"
  shows "\<exists>h'. getActiveClip_store h r t = Some (h', getActiveClip (h ! r) t) \<and>
      h' ! r = h ! r \<and> (\<forall>a < length h. h' ! a = h ! a) \<and>
      length h' = Suc (length h) \<and> h' ! length h = sorted_clips (h ! r)"
  using r
  by (simp add: getActiveClip_store_def spread_def sort_in_place_def getActiveClip_def
      sorted_clips_def nth_append)

text \<open>
  The theorem at the store holding the one array \<open>[b, a]\<close>, which is not in order of
  start: the copy is sorted to \<open>[a, b]\<close>, the input stays \<open>[b, a]\<close>.
\<close>

theorem getActiveClip_store_frame_witness:
  "(0::nat) < length [[scenario_b, scenario_a]] \<and>
   getActiveClip_store [[scenario_b, scenario_a]] 0 4 =
     Some ([[scenario_b, scenario_a], [scenario_a, scenario_b]], Some scenario_a) \<and>
   [[scenario_b, scenario_a], [scenario_a, scenario_b]] ! 0 = [[scenario_b, scenario_a]] ! 0"
proof -
  let ?h = "[[scenario_b, scenario_a]]"
  have r: "(0::nat) < length ?h" by simp
  have run: "getActiveClip_store ?h 0 4 =
     Some ([[scenario_b, scenario_a], [scenario_a, scenario_b]], Some scenario_a)"
    by (simp add: getActiveClip_store_def spread_def sort_in_place_def covers_def
        scenario_a_def scenario_b_def clip_lit_def)
  from getActiveClip_store_frame [OF r, of 4] obtain h' where
    h': "getActiveClip_store ?h 0 4 = Some (h', getActiveClip (?h ! 0) 4)" "h' ! 0 = ?h ! 0"
    by blast
  from h'(1) run have "h' = [[scenario_b, scenario_a], [scenario_a, scenario_b]]" by simp
  with h'(2) r run show ?thesis by simp
qed

text \<open>
  C8. For two abutting clips \<open>a\<close> and \<open>b\<close> (\<open>a.start + a.duration = b.start\<close>, and
  \<open>b\<close> of positive duration, as every clip of the data model is), the shared boundary
  instant \<open>t = b.start\<close> belongs to \<open>b\<close> and not to \<open>a\<close>: the two never both match.
  The resolver returns \<open>b\<close> on the timeline made of the two clips, in either order, and
  on every longer clip list holding both in which no third clip contains the instant; it
  returns \<open>a\<close> on no clip list at all.
\<close>

theorem abutting_boundary_selects_later:
  assumes abut: "start a + duration a = start b" and pos: "0 < duration b"
  shows "\<not> covers (start b) a \<and> covers (start b) b \<and>
    getActiveClip [a, b] (start b) = Some b \<and>
    getActiveClip [b, a] (start b) = Some b \<and>
    (\<forall>cs. a \<in> set cs \<and> b \<in> set cs \<and>
       (\<forall>c \<in> set cs. c \<noteq> a \<and> c \<noteq> b \<longrightarrow> \<not> covers (start b) c) \<longrightarrow>
       getActiveClip cs (start b) = Some b) \<and>
    (\<forall>cs. getActiveClip cs (start b) \<noteq> Some a)"
proof -
  have na: "\<not> covers (start b) a"
    using abut by (simp add: covers_def)
  have cb: "covers (start b) b"
    using pos by (simp add: covers_def)
  have gen: "getActiveClip cs (start b) = Some b"
    if "b \<in> set cs" "\<forall>c \<in> set cs. c \<noteq> a \<and> c \<noteq> b \<longrightarrow> \<not> covers (start b) c"
    for cs
  proof (rule getActiveClip_unique)
    show "b \<in> set cs" by (rule that(1))
    show "covers (start b) b" by (rule cb)
    show "\<forall>c \<in> set cs. covers (start b) c \<longrightarrow> c = b"
      using that(2) na by auto
  qed
  have never: "getActiveClip cs (start b) \<noteq> Some a" for cs
    using getActiveClip_Some_covers(2) [of cs "start b" a] na by blast
  have ab: "getActiveClip [a, b] (start b) = Some b" by (rule gen) simp_all
  have ba: "getActiveClip [b, a] (start b) = Some b" by (rule gen) simp_all
  have all: "\<forall>cs. a \<in> set cs \<and> b \<in> set cs \<and>
       (\<forall>c \<in> set cs. c \<noteq> a \<and> c \<noteq> b \<longrightarrow> \<not> covers (start b) c) \<longrightarrow>
       getActiveClip cs (start b) = Some b"
    using gen by simp
  from na cb ab ba all never show ?thesis by simp
qed

text \<open>The theorem at \<open>a = [0, 5)\<close> and \<open>b = [5, 8)\<close>, with the boundary instant \<open>5\<close>.\<close>

theorem abutting_boundary_selects_later_witness:
  "start (clip_lit ''a'' 0 5) + duration (clip_lit ''a'' 0 5) = start (clip_lit ''b'' 5 3) \<and>
   0 < duration (clip_lit ''b'' 5 3) \<and>
   getActiveClip [clip_lit ''a'' 0 5, clip_lit ''b'' 5 3] 5 = Some (clip_lit ''b'' 5 3) \<and>
   getActiveClip [clip_lit ''b'' 5 3, clip_lit ''a'' 0 5] 5 = Some (clip_lit ''b'' 5 3)"
proof -
  have h1: "start (clip_lit ''a'' 0 5) + duration (clip_lit ''a'' 0 5) = start (clip_lit ''b'' 5 3)"
    by (simp add: clip_lit_def)
  have h2: "0 < duration (clip_lit ''b'' 5 3)"
    by (simp add: clip_lit_def)
  have s: "start (clip_lit ''b'' 5 3) = 5"
    by (simp add: clip_lit_def)
  from abutting_boundary_selects_later [OF h1 h2] h1 h2 show ?thesis
    unfolding s by simp
qed

section \<open>Claims about the player\<close>

text \<open>
  C2. With an active clip and a mounted video element, a new playhead time repositions
  the element to \<open>playheadTime - activeClip.start\<close> if and only if that offset and the
  element's elapsed position differ by more than 0.1 seconds; otherwise the element is left
  as it is. (The code writes \<open>max 0\<close> of the offset, which is the offset itself, since the
  active clip was resolved at the playhead time.)
\<close>

theorem driftSync_threshold:
  assumes ac: "activeClip p = Some ac" and v: "videoRef st = Some v"
  shows "driftSyncEffect p st =
      (if 1 / 10 < \<bar>currentTime v - (playheadTime p - start ac)\<bar>
       then st\<lparr>videoRef := Some (v\<lparr>currentTime := playheadTime p - start ac\<rparr>)\<rparr>
       else st) \<and>
    (driftSyncEffect p st \<noteq> st \<longleftrightarrow> 1 / 10 < \<bar>currentTime v - (playheadTime p - start ac)\<bar>)"
proof -
  let ?off = "playheadTime p - start ac"
  from activeClip_bounds(1) [OF ac] have m: "max 0 ?off = ?off" by simp
  have eq: "driftSyncEffect p st =
      (if 1 / 10 < \<bar>currentTime v - ?off\<bar>
       then st\<lparr>videoRef := Some (v\<lparr>currentTime := ?off\<rparr>)\<rparr> else st)"
    using ac v m by (simp add: driftSyncEffect_def)
  have ne: "st\<lparr>videoRef := Some (v\<lparr>currentTime := ?off\<rparr>)\<rparr> \<noteq> st"
    if d: "1 / 10 < \<bar>currentTime v - ?off\<bar>"
  proof
    assume "st\<lparr>videoRef := Some (v\<lparr>currentTime := ?off\<rparr>)\<rparr> = st"
    then have "videoRef (st\<lparr>videoRef := Some (v\<lparr>currentTime := ?off\<rparr>)\<rparr>) = videoRef st"
      by simp
    with v have "v\<lparr>currentTime := ?off\<rparr> = v" by simp
    then have "currentTime (v\<lparr>currentTime := ?off\<rparr>) = currentTime v" by simp
    then have "?off = currentTime v" by simp
    with d show False by simp
  qed
  from eq ne show ?thesis by simp
qed

text \<open>
  Scenarios D and E on the clip \<open>[0, 5)\<close>: playhead 2.0 against elapsed 2.08 leaves the
  element alone; playhead 2.5 against elapsed 2.0 moves it to 2.5.
\<close>

theorem driftSync_threshold_witness:
  "activeClip (props_lit [scenario_a] 2 True) = Some scenario_a \<and>
   videoRef (player_lit ''a'' (52 / 25)) = Some (video_lit ''a'' (52 / 25)) \<and>
   driftSyncEffect (props_lit [scenario_a] 2 True) (player_lit ''a'' (52 / 25)) =
     player_lit ''a'' (52 / 25) \<and>
   driftSyncEffect (props_lit [scenario_a] (5 / 2) True) (player_lit ''a'' 2) =
     (player_lit ''a'' 2)\<lparr>videoRef := Some ((video_lit ''a'' 2)\<lparr>currentTime := 5 / 2\<rparr>)\<rparr>"
proof -
  have acD: "activeClip (props_lit [scenario_a] 2 True) = Some scenario_a"
    by (simp add: resolve_defs lit_defs)
  have vD: "videoRef (player_lit ''a'' (52 / 25)) = Some (video_lit ''a'' (52 / 25))"
    by (simp add: player_lit_def)
  have acE: "activeClip (props_lit [scenario_a] (5 / 2) True) = Some scenario_a"
    by (simp add: resolve_defs lit_defs)
  have vE: "videoRef (player_lit ''a'' 2) = Some (video_lit ''a'' 2)"
    by (simp add: player_lit_def)
  have sa: "start scenario_a = 0" by (simp add: lit_defs)
  from driftSync_threshold [OF acD vD]
  have D: "driftSyncEffect (props_lit [scenario_a] 2 True) (player_lit ''a'' (52 / 25)) =
     player_lit ''a'' (52 / 25)"
    by (simp add: sa props_lit_def video_lit_def)
  from driftSync_threshold [OF acE vE]
  have E: "driftSyncEffect (props_lit [scenario_a] (5 / 2) True) (player_lit ''a'' 2) =
     (player_lit ''a'' 2)\<lparr>videoRef := Some ((video_lit ''a'' 2)\<lparr>currentTime := 5 / 2\<rparr>)\<rparr>"
    by (simp add: sa props_lit_def video_lit_def)
  from acD vD D E show ?thesis by simp
qed

text \<open>
  The clip-change effect while a video element is mounted. When the identifier of the
  resolved active clip differs from the bound one, the effect records the new identifier,
  clears the error, sets the element's source to the new clip's converted source file, and
  seeks to \<open>clamp(playheadTime - newClip.start, 0, newClip.duration)\<close>, which lies between
  0 and the clip's duration (the code writes \<open>max 0\<close> of the offset, and the offset is
  below the duration because the clip was resolved at the playhead time); the element is
  set playing exactly when \<open>isPlaying\<close> holds.
\<close>

lemma clipChange_binding:
  assumes ac: "activeClip p = Some ac"
    and differs: "Some (id_clip ac) \<noteq> currentClipId st"
    and v: "videoRef st = Some v"
  shows "clipChangeEffect convertFileSrc p st =
      st\<lparr>currentClipId := Some (id_clip ac), error := None,
         videoRef := Some (v\<lparr>src := convertFileSrc (source_file ac),
                             currentTime := clamp (playheadTime p - start ac) 0 (duration ac),
                             paused := (if isPlaying p then False else paused v)\<rparr>)\<rparr> \<and>
    0 \<le> clamp (playheadTime p - start ac) 0 (duration ac) \<and>
    clamp (playheadTime p - start ac) 0 (duration ac) \<le> duration ac"
proof -
  let ?off = "playheadTime p - start ac"
  from activeClip_bounds [OF ac] have b: "0 \<le> ?off" "?off < duration ac" by simp_all
  then have c: "clamp ?off 0 (duration ac) = ?off" and m: "max 0 ?off = ?off"
    by (simp_all add: clamp_def)
  have "clipChangeEffect convertFileSrc p st =
      st\<lparr>currentClipId := Some (id_clip ac), error := None,
         videoRef := Some (v\<lparr>src := convertFileSrc (source_file ac), currentTime := ?off,
                             paused := (if isPlaying p then False else paused v)\<rparr>)\<rparr>"
    using ac differs v m by (simp add: clipChangeEffect_def play_def)
  with b c show ?thesis by simp
qed

text \<open>
  The lemma at the clips \<open>a\<close>, \<open>b\<close> with the playhead at 6 while \<open>a\<close> is bound: the
  player binds \<open>b\<close> at offset 1.
\<close>

lemma clipChange_binding_scenario:
  "activeClip (props_lit [scenario_a, scenario_b] 6 True) = Some scenario_b \<and>
   Some (id_clip scenario_b) \<noteq> currentClipId (player_lit ''a'' 5) \<and>
   videoRef (player_lit ''a'' 5) = Some (video_lit ''a'' 5) \<and>
   clipChangeEffect asset_url (props_lit [scenario_a, scenario_b] 6 True) (player_lit ''a'' 5) =
     (player_lit ''a'' 5)\<lparr>currentClipId := Some ''b'', error := None,
        videoRef := Some ((video_lit ''a'' 5)\<lparr>src := asset_url ''b.mp4'', currentTime := 1,
                                               paused := False\<rparr>)\<rparr>"
proof -
  have ac: "activeClip (props_lit [scenario_a, scenario_b] 6 True) = Some scenario_b"
    by (simp add: resolve_defs lit_defs)
  have differs: "Some (id_clip scenario_b) \<noteq> currentClipId (player_lit ''a'' 5)"
    by (simp add: lit_defs)
  have v: "videoRef (player_lit ''a'' 5) = Some (video_lit ''a'' 5)"
    by (simp add: player_lit_def)
  have b: "id_clip scenario_b = ''b''" "source_file scenario_b = ''b.mp4''"
    "start scenario_b = 5" "duration scenario_b = 3"
    by (simp_all add: lit_defs)
  from clipChange_binding [OF ac differs v, of asset_url]
  have "clipChangeEffect asset_url (props_lit [scenario_a, scenario_b] 6 True) (player_lit ''a'' 5) =
     (player_lit ''a'' 5)\<lparr>currentClipId := Some ''b'', error := None,
        videoRef := Some ((video_lit ''a'' 5)\<lparr>src := asset_url ''b.mp4'', currentTime := 1,
                                               paused := False\<rparr>)\<rparr>"
    by (simp add: b props_lit_def clamp_def)
  with ac differs v show ?thesis by simp
qed

text \<open>
  C3. Whenever the identifier of the resolved active clip differs from the bound one, the
  player is to bind the new clip's source and seek into it. The code misses the case in
  which the error panel is shown. With clips \<open>a = [0, 5)\<close> and \<open>b = [5, 8)\<close>, a failure on
  \<open>a\<close> has stored an error, so no video element is mounted; the playhead then moves to 6,
  inside \<open>b\<close>. The effect records \<open>b\<close> as the bound clip and clears the error, but sets no
  source. The next render shows the video view with a new element; the effect runs again,
  finds the identifiers equal and does nothing: the element keeps its empty source and
  position 0, and the source of \<open>b\<close> is never bound.
\<close>

theorem clipChange_unmounted_never_binds:
  "render (props_lit [scenario_a, scenario_b] 6 False) (errored_lit ''a'') = ErrorPanel \<and>
   commitRef (props_lit [scenario_a, scenario_b] 6 False) (errored_lit ''a'') = errored_lit ''a'' \<and>
   activeClip (props_lit [scenario_a, scenario_b] 6 False) = Some scenario_b \<and>
   Some (id_clip scenario_b) \<noteq> currentClipId (errored_lit ''a'') \<and>
   clipChangeEffect asset_url (props_lit [scenario_a, scenario_b] 6 False) (errored_lit ''a'') =
     (errored_lit ''a'')\<lparr>currentClipId := Some ''b'', error := None\<rparr> \<and>
   render (props_lit [scenario_a, scenario_b] 6 False)
     ((errored_lit ''a'')\<lparr>currentClipId := Some ''b'', error := None\<rparr>) = VideoView \<and>
   commitRef (props_lit [scenario_a, scenario_b] 6 False)
     ((errored_lit ''a'')\<lparr>currentClipId := Some ''b'', error := None\<rparr>) =
     (errored_lit ''a'')\<lparr>currentClipId := Some ''b'', error := None,
        videoRef := Some fresh_video\<rparr> \<and>
   clipChangeEffect asset_url (props_lit [scenario_a, scenario_b] 6 False)
     ((errored_lit ''a'')\<lparr>currentClipId := Some ''b'', error := None,
        videoRef := Some fresh_video\<rparr>) =
     (errored_lit ''a'')\<lparr>currentClipId := Some ''b'', error := None,
        videoRef := Some fresh_video\<rparr> \<and>
   src fresh_video = [] \<and>
   asset_url (source_file scenario_b) = ''asset://localhost/b.mp4''"
proof -
  let ?p = "props_lit [scenario_a, scenario_b] 6 False"
  let ?st = "errored_lit ''a''"
  let ?st1 = "?st\<lparr>currentClipId := Some ''b'', error := None\<rparr>"
  let ?st2 = "?st\<lparr>currentClipId := Some ''b'', error := None, videoRef := Some fresh_video\<rparr>"
  have ac: "activeClip ?p = Some scenario_b"
    by (simp add: resolve_defs lit_defs)
  have c1: "render ?p ?st = ErrorPanel"
    by (simp add: render_def ac) (simp add: props_lit_def errored_lit_def)
  have c2: "commitRef ?p ?st = ?st"
    by (simp add: commitRef_def c1) (simp add: errored_lit_def)
  have c4: "Some (id_clip scenario_b) \<noteq> currentClipId ?st"
    by (simp add: errored_lit_def lit_defs)
  have c5: "clipChangeEffect asset_url ?p ?st = ?st1"
    by (simp add: clipChangeEffect_def ac c4) (simp add: errored_lit_def lit_defs)
  have c6: "render ?p ?st1 = VideoView"
    by (simp add: render_def ac) (simp add: props_lit_def errored_lit_def)
  have c7: "commitRef ?p ?st1 = ?st2"
    by (simp add: commitRef_def c6) (simp add: errored_lit_def)
  have c8: "clipChangeEffect asset_url ?p ?st2 = ?st2"
    by (simp add: clipChangeEffect_def ac) (simp add: errored_lit_def lit_defs)
  have c9: "src fresh_video = []" by (simp add: fresh_video_def)
  have c10: "asset_url (source_file scenario_b) = ''asset://localhost/b.mp4''"
    by (simp add: lit_defs)
  from c1 c2 ac c4 c5 c6 c7 c8 c9 c10 show ?thesis by simp
qed

text \<open>
  What a tick at the end of the active clip does when the resolver finds a clip at
  \<open>start + duration + 0.01\<close>: it asks for the playhead to move to that clip's start, which
  the application sends to the backend as a seek, and requests another animation frame. The
  tick itself binds nothing.
\<close>

lemma tick_boundary_request:
  assumes ac: "activeClip p = Some c" and v: "videoRef st = Some v"
    and playing: "isPlaying p"
    and past: "duration c \<le> currentTime v"
    and nxt: "getActiveClip (clips p) (start c + duration c + 1 / 100) = Some n"
  shows "updatePlayhead h p st =
      (st\<lparr>animationFrameRef := Some h\<rparr>, [OnPlayheadChange (start n), RequestAnimationFrame]) \<and>
    appCallback (OnPlayheadChange (start n)) app = (app, [Seek_timeline (start n)])"
  using ac v playing past nxt by (simp add: updatePlayhead_def seekTo_def)

text \<open>
  What follows when the backend broadcasts the requested playhead with the same clips: if
  the resolver at the next clip's start returns that clip, and its identifier differs from
  the bound one, the clip-change effect binds its source at offset 0 and, the intent being
  on, sets it playing.
\<close>

lemma tick_boundary_rebinds:
  assumes app: "timelineState app = Some s" and playing: "isPlaying_app app"
    and res: "getActiveClip (clips_ts s) (start n) = Some n"
    and bc: "clips_ts s' = clips_ts s" "playhead_time s' = start n"
    and bound: "currentClipId st' = Some i" "i \<noteq> id_clip n"
    and v': "videoRef st' = Some v'"
  shows "activeClip (videoPlayerProps (onStateUpdate s' app)) = Some n \<and>
    clipChangeEffect convertFileSrc (videoPlayerProps (onStateUpdate s' app)) st' =
      st'\<lparr>currentClipId := Some (id_clip n), error := None,
         videoRef := Some (v'\<lparr>src := convertFileSrc (source_file n), currentTime := 0,
                              paused := False\<rparr>)\<rparr>"
proof -
  let ?p' = "videoPlayerProps (onStateUpdate s' app)"
  have p': "clips ?p' = clips_ts s" "playheadTime ?p' = start n" "isPlaying ?p'"
    using app bc playing by (simp_all add: onStateUpdate_def videoPlayerProps_def)
  have ac': "activeClip ?p' = Some n"
    using res p' by (simp add: activeClip_def)
  have "clipChangeEffect convertFileSrc ?p' st' =
      st'\<lparr>currentClipId := Some (id_clip n), error := None,
         videoRef := Some (v'\<lparr>src := convertFileSrc (source_file n), currentTime := 0,
                              paused := False\<rparr>)\<rparr>"
    using ac' bound v' p' by (auto simp: clipChangeEffect_def play_def)
  with ac' show ?thesis by simp
qed

text \<open>
  Scenario B: clips \<open>[0, 5)\<close> and \<open>[5, 8)\<close>, playing, elapsed 5.02 on the first clip. The
  resolver at 5.01 returns the second clip, the tick asks for playhead 5 and another frame,
  and the broadcast of playhead 5 binds the second clip at offset 0.
\<close>

lemma tick_boundary_scenario_B:
  "activeClip (videoPlayerProps (app_lit [scenario_a, scenario_b] (499 / 100) True)) = Some scenario_a \<and>
   duration scenario_a \<le> currentTime (video_lit ''a'' (251 / 50)) \<and>
   getActiveClip [scenario_a, scenario_b] (5 + 1 / 100) = Some scenario_b \<and>
   updatePlayhead 1 (videoPlayerProps (app_lit [scenario_a, scenario_b] (499 / 100) True))
       (player_lit ''a'' (251 / 50)) =
     ((player_lit ''a'' (251 / 50))\<lparr>animationFrameRef := Some 1\<rparr>,
      [OnPlayheadChange 5, RequestAnimationFrame]) \<and>
   activeClip (videoPlayerProps (onStateUpdate (timeline_lit [scenario_a, scenario_b] 5 3)
       (app_lit [scenario_a, scenario_b] (499 / 100) True))) = Some scenario_b \<and>
   clipChangeEffect asset_url
       (videoPlayerProps (onStateUpdate (timeline_lit [scenario_a, scenario_b] 5 3)
          (app_lit [scenario_a, scenario_b] (499 / 100) True)))
       ((player_lit ''a'' (251 / 50))\<lparr>animationFrameRef := Some 1\<rparr>) =
     (player_lit ''a'' (251 / 50))\<lparr>animationFrameRef := Some 1, currentClipId := Some ''b'',
        error := None,
        videoRef := Some ((video_lit ''a'' (251 / 50))\<lparr>src := asset_url ''b.mp4'',
                            currentTime := 0, paused := False\<rparr>)\<rparr>"
proof -
  let ?cs = "[scenario_a, scenario_b]"
  let ?app = "app_lit ?cs (499 / 100) True"
  let ?s = "timeline_lit ?cs (499 / 100) 2"
  let ?s' = "timeline_lit ?cs 5 3"
  let ?p = "videoPlayerProps ?app"
  let ?st = "player_lit ''a'' (251 / 50)"
  let ?v = "video_lit ''a'' (251 / 50)"
  have app: "timelineState ?app = Some ?s" by (simp add: app_lit_def)
  have ipa: "isPlaying_app ?app" by (simp add: app_lit_def)
  have p: "?p = props_lit ?cs (499 / 100) True"
    by (simp add: videoPlayerProps_def app_lit_def timeline_lit_def props_lit_def)
  have ac: "activeClip ?p = Some scenario_a"
    unfolding p by (simp add: resolve_defs lit_defs)
  have v: "videoRef ?st = Some ?v" by (simp add: player_lit_def)
  have playing: "isPlaying ?p" unfolding p by (simp add: props_lit_def)
  have past: "duration scenario_a \<le> currentTime ?v" by (simp add: lit_defs)
  have a: "start scenario_a = 0" "duration scenario_a = 5" "id_clip scenario_a = ''a''"
    by (simp_all add: lit_defs)
  have b: "start scenario_b = 5" "id_clip scenario_b = ''b''" "source_file scenario_b = ''b.mp4''"
    by (simp_all add: lit_defs)
  have nx: "getActiveClip ?cs (5 + 1 / 100) = Some scenario_b"
    by (simp add: resolve_defs lit_defs)
  have nxt: "getActiveClip (clips ?p) (start scenario_a + duration scenario_a + 1 / 100) = Some scenario_b"
    unfolding p a using nx by (simp add: props_lit_def)
  have res: "getActiveClip (clips_ts ?s) (start scenario_b) = Some scenario_b"
    by (simp add: timeline_lit_def resolve_defs lit_defs)
  have bc: "clips_ts ?s' = clips_ts ?s" "playhead_time ?s' = start scenario_b"
    by (simp_all add: timeline_lit_def b)
  have bound: "currentClipId (?st\<lparr>animationFrameRef := Some 1\<rparr>) = Some ''a''"
    "''a'' \<noteq> id_clip scenario_b"
    by (simp_all add: player_lit_def b)
  have v': "videoRef (?st\<lparr>animationFrameRef := Some 1\<rparr>) = Some ?v"
    by (simp add: player_lit_def)
  from tick_boundary_request [OF ac v playing past nxt, of 1 ?app, THEN conjunct1]
  have tick: "updatePlayhead 1 ?p ?st =
     (?st\<lparr>animationFrameRef := Some 1\<rparr>, [OnPlayheadChange 5, RequestAnimationFrame])"
    by (simp add: b)
  note r = tick_boundary_rebinds [OF app ipa res bc bound v', of asset_url]
  from r [THEN conjunct1]
  have ac': "activeClip (videoPlayerProps (onStateUpdate ?s' ?app)) = Some scenario_b" .
  from r [THEN conjunct2]
  have bind: "clipChangeEffect asset_url (videoPlayerProps (onStateUpdate ?s' ?app))
       (?st\<lparr>animationFrameRef := Some 1\<rparr>) =
     ?st\<lparr>animationFrameRef := Some 1, currentClipId := Some ''b'', error := None,
        videoRef := Some (?v\<lparr>src := asset_url ''b.mp4'', currentTime := 0, paused := False\<rparr>)\<rparr>"
    by (simp add: b)
  from ac past nx tick ac' bind show ?thesis by simp
qed

text \<open>
  C4. On a tick at the end of the active clip, a next clip found at
  \<open>start + duration + 0.01\<close> is to be bound and played without a seek from outside. The code
  asks for the playhead to move to the next clip's start, and that is not enough when the
  next clip started before the active one ended. With \<open>a = [0, 5)\<close> on one track and
  \<open>b = [3, 13)\<close> on another, playing \<open>a\<close> with the element at 5: the resolver at 5.01 returns
  \<open>b\<close>, and the tick asks for playhead 3 and another frame. On the broadcast of playhead 3
  the resolver returns \<open>a\<close>, the earlier start, so the clip-change effect changes nothing
  and the drift effect moves the element, still on the source of \<open>a\<close>, back to 3. When the
  element reaches 5 again the tick is the same one: \<open>[3, 5)\<close> of \<open>a\<close> is replayed and \<open>b\<close> is
  never bound.
\<close>

theorem tick_boundary_overlap_replays:
  "distinct (map id_clip [scenario_a, overlap_b]) \<and>
   track_id scenario_a \<noteq> track_id overlap_b \<and>
   activeClip (videoPlayerProps (app_lit [scenario_a, overlap_b] (499 / 100) True)) = Some scenario_a \<and>
   getActiveClip [scenario_a, overlap_b] (start scenario_a + duration scenario_a + 1 / 100) =
     Some overlap_b \<and>
   updatePlayhead 1 (videoPlayerProps (app_lit [scenario_a, overlap_b] (499 / 100) True))
       (player_lit ''a'' 5) =
     ((player_lit ''a'' 5)\<lparr>animationFrameRef := Some 1\<rparr>,
      [OnPlayheadChange 3, RequestAnimationFrame]) \<and>
   appCallback (OnPlayheadChange 3) (app_lit [scenario_a, overlap_b] (499 / 100) True) =
     (app_lit [scenario_a, overlap_b] (499 / 100) True, [Seek_timeline 3]) \<and>
   activeClip (videoPlayerProps (onStateUpdate (timeline_lit [scenario_a, overlap_b] 3 3)
       (app_lit [scenario_a, overlap_b] (499 / 100) True))) = Some scenario_a \<and>
   clipChangeEffect asset_url
       (videoPlayerProps (onStateUpdate (timeline_lit [scenario_a, overlap_b] 3 3)
          (app_lit [scenario_a, overlap_b] (499 / 100) True)))
       ((player_lit ''a'' 5)\<lparr>animationFrameRef := Some 1\<rparr>) =
     (player_lit ''a'' 5)\<lparr>animationFrameRef := Some 1\<rparr> \<and>
   driftSyncEffect
       (videoPlayerProps (onStateUpdate (timeline_lit [scenario_a, overlap_b] 3 3)
          (app_lit [scenario_a, overlap_b] (499 / 100) True)))
       ((player_lit ''a'' 5)\<lparr>animationFrameRef := Some 1\<rparr>) =
     (player_lit ''a'' 3)\<lparr>animationFrameRef := Some 1\<rparr> \<and>
   updatePlayhead 2
       (videoPlayerProps (onStateUpdate (timeline_lit [scenario_a, overlap_b] (499 / 100) 4)
          (app_lit [scenario_a, overlap_b] (499 / 100) True)))
       ((player_lit ''a'' 5)\<lparr>animationFrameRef := Some 1\<rparr>) =
     ((player_lit ''a'' 5)\<lparr>animationFrameRef := Some 2\<rparr>,
      [OnPlayheadChange 3, RequestAnimationFrame]) \<and>
   scenario_a \<noteq> overlap_b"
proof -
  let ?cs = "[scenario_a, overlap_b]"
  let ?app = "app_lit ?cs (499 / 100) True"
  let ?s' = "timeline_lit ?cs 3 3"
  let ?s'' = "timeline_lit ?cs (499 / 100) 4"
  let ?st = "player_lit ''a'' 5"
  have p: "videoPlayerProps ?app = props_lit ?cs (499 / 100) True"
    by (simp add: videoPlayerProps_def app_lit_def timeline_lit_def props_lit_def)
  have p': "videoPlayerProps (onStateUpdate ?s' ?app) = props_lit ?cs 3 True"
    by (simp add: videoPlayerProps_def onStateUpdate_def app_lit_def timeline_lit_def props_lit_def)
  have p'': "videoPlayerProps (onStateUpdate ?s'' ?app) = props_lit ?cs (499 / 100) True"
    by (simp add: videoPlayerProps_def onStateUpdate_def app_lit_def timeline_lit_def props_lit_def)
  have c2: "distinct (map id_clip ?cs)" by (simp add: lit_defs)
  have c3: "track_id scenario_a \<noteq> track_id overlap_b" by (simp add: lit_defs)
  have c4: "activeClip (props_lit ?cs (499 / 100) True) = Some scenario_a"
    by (simp add: resolve_defs lit_defs)
  have c5: "getActiveClip ?cs (start scenario_a + duration scenario_a + 1 / 100) = Some overlap_b"
    by (simp add: resolve_defs lit_defs)
  have c6: "updatePlayhead 1 (props_lit ?cs (499 / 100) True) ?st =
     (?st\<lparr>animationFrameRef := Some 1\<rparr>, [OnPlayheadChange 3, RequestAnimationFrame])"
    by (simp add: updatePlayhead_def resolve_defs lit_defs)
  have c7: "appCallback (OnPlayheadChange 3) ?app = (?app, [Seek_timeline 3])"
    by (simp add: seekTo_def)
  have c8: "activeClip (props_lit ?cs 3 True) = Some scenario_a"
    by (simp add: resolve_defs lit_defs)
  have c9: "clipChangeEffect asset_url (props_lit ?cs 3 True) (?st\<lparr>animationFrameRef := Some 1\<rparr>) =
     ?st\<lparr>animationFrameRef := Some 1\<rparr>"
    by (simp add: clipChangeEffect_def resolve_defs lit_defs)
  have c10: "driftSyncEffect (props_lit ?cs 3 True) (?st\<lparr>animationFrameRef := Some 1\<rparr>) =
     (player_lit ''a'' 3)\<lparr>animationFrameRef := Some 1\<rparr>"
    by (simp add: driftSyncEffect_def resolve_defs lit_defs)
  have c11: "updatePlayhead 2 (props_lit ?cs (499 / 100) True) (?st\<lparr>animationFrameRef := Some 1\<rparr>) =
     (?st\<lparr>animationFrameRef := Some 2\<rparr>, [OnPlayheadChange 3, RequestAnimationFrame])"
    by (simp add: updatePlayhead_def resolve_defs lit_defs)
  have c12: "scenario_a \<noteq> overlap_b" by (simp add: lit_defs)
  from c2 c3 c4 c5 c6 c7 c8 c9 c10 c11 c12 show ?thesis
    unfolding p p' p'' by simp
qed

text \<open>
  C5. On a tick with the elapsed position at or past the active clip's duration and no clip
  at \<open>start + duration + 0.01\<close>, the only call is \<open>onPlayingChange(false)\<close>, which the
  application stores as the intent: no animation frame is requested. While the intent stays
  false, a tick does nothing, and neither the playback-loop effect nor its cleanup requests
  a frame.
\<close>

theorem tick_end_of_timeline:
  assumes ac: "activeClip p = Some ac" and v: "videoRef st = Some v"
    and playing: "isPlaying p"
    and past: "duration ac \<le> currentTime v"
    and none: "getActiveClip (clips p) (start ac + duration ac + 1 / 100) = None"
  shows "updatePlayhead h p st = (st, [OnPlayingChange False]) \<and>
    RequestAnimationFrame \<notin> set (snd (updatePlayhead h p st)) \<and>
    appCallback (OnPlayingChange False) app = (app\<lparr>isPlaying_app := False\<rparr>, []) \<and>
    isPlaying (videoPlayerProps (app\<lparr>isPlaying_app := False\<rparr>)) = False \<and>
    (\<forall>h' p' st'. \<not> isPlaying p' \<longrightarrow>
       updatePlayhead h' p' st' = (st', []) \<and>
       RequestAnimationFrame \<notin> set (snd (playbackLoopEffect h' p' st')) \<and>
       RequestAnimationFrame \<notin> set (playbackLoopCleanup st'))"
proof -
  have t: "updatePlayhead h p st = (st, [OnPlayingChange False])"
    using ac v playing past none by (simp add: updatePlayhead_def)
  have idle: "updatePlayhead h' p' st' = (st', [])" if "\<not> isPlaying p'" for h' p' st'
    using that by (simp add: updatePlayhead_def split: option.splits)
  have loop: "RequestAnimationFrame \<notin> set (snd (playbackLoopEffect h' p' st'))"
    if "\<not> isPlaying p'" for h' p' st'
    using that by (simp add: playbackLoopEffect_def cancelPending_def split: option.splits)
  have cleanup: "RequestAnimationFrame \<notin> set (playbackLoopCleanup st')" for st'
    by (simp add: playbackLoopCleanup_def cancelPending_def split: option.splits)
  from t idle loop cleanup show ?thesis
    by (simp add: videoPlayerProps_def)
qed

text \<open>
  The theorem on the single clip \<open>[0, 5)\<close> with elapsed 5.02: the resolver at 5.01 finds
  nothing.
\<close>

theorem tick_end_of_timeline_witness:
  "activeClip (props_lit [scenario_a] (499 / 100) True) = Some scenario_a \<and>
   videoRef (player_lit ''a'' (251 / 50)) = Some (video_lit ''a'' (251 / 50)) \<and>
   isPlaying (props_lit [scenario_a] (499 / 100) True) \<and>
   duration scenario_a \<le> currentTime (video_lit ''a'' (251 / 50)) \<and>
   getActiveClip (clips (props_lit [scenario_a] (499 / 100) True))
     (start scenario_a + duration scenario_a + 1 / 100) = None \<and>
   updatePlayhead 1 (props_lit [scenario_a] (499 / 100) True) (player_lit ''a'' (251 / 50)) =
     (player_lit ''a'' (251 / 50), [OnPlayingChange False]) \<and>
   updatePlayhead 2 (props_lit [scenario_a] (499 / 100) False) (player_lit ''a'' (251 / 50)) =
     (player_lit ''a'' (251 / 50), [])"
proof -
  let ?p = "props_lit [scenario_a] (499 / 100) True"
  let ?st = "player_lit ''a'' (251 / 50)"
  have ac: "activeClip ?p = Some scenario_a"
    by (simp add: resolve_defs lit_defs)
  have v: "videoRef ?st = Some (video_lit ''a'' (251 / 50))"
    by (simp add: player_lit_def)
  have playing: "isPlaying ?p" by (simp add: props_lit_def)
  have past: "duration scenario_a \<le> currentTime (video_lit ''a'' (251 / 50))"
    by (simp add: lit_defs)
  have none: "getActiveClip (clips ?p) (start scenario_a + duration scenario_a + 1 / 100) = None"
    by (simp add: resolve_defs lit_defs)
  note t = tick_end_of_timeline [OF ac v playing past none, of 1 "app_lit [scenario_a] (499 / 100) True"]
  from t have tick: "updatePlayhead 1 ?p ?st = (?st, [OnPlayingChange False])"
    by (rule conjunct1)
  from t have "\<forall>h' p' st'. \<not> isPlaying p' \<longrightarrow>
       updatePlayhead h' p' st' = (st', []) \<and>
       RequestAnimationFrame \<notin> set (snd (playbackLoopEffect h' p' st')) \<and>
       RequestAnimationFrame \<notin> set (playbackLoopCleanup st')"
    by (rule conjunct2 [THEN conjunct2, THEN conjunct2, THEN conjunct2])
  then have "\<not> isPlaying (props_lit [scenario_a] (499 / 100) False) \<longrightarrow>
       updatePlayhead 2 (props_lit [scenario_a] (499 / 100) False) ?st = (?st, [])"
    by blast
  then have idle: "updatePlayhead 2 (props_lit [scenario_a] (499 / 100) False) ?st = (?st, [])"
    by (simp add: props_lit_def)
  from ac v playing past none tick idle show ?thesis by simp
qed



section \<open>Claims about the timeline\<close>

text \<open>
  C7. With \<open>timeToPixel(t) = t * 50\<close> and
  \<open>pixelToTime(x) = clamp(x / 50, 0, duration)\<close> over exact arithmetic, every \<open>t\<close> between
  0 and the timeline duration satisfies \<open>pixelToTime(timeToPixel(t)) = t\<close>.
\<close>

theorem pixel_round_trip:
  "timeToPixel t = t * 50 \<and>
   pixelToTime ts x = clamp (x / 50) 0 (maxTime ts) \<and>
   (0 \<le> t \<and> t \<le> maxTime ts \<longrightarrow> pixelToTime ts (timeToPixel t) = t) \<and>
   (0 \<le> t \<and> t \<le> duration_ts s \<longrightarrow> maxTime (Some s) = duration_ts s \<and>
      pixelToTime (Some s) (timeToPixel t) = t)"
  by (auto simp: timeToPixel_def pixelToTime_def PIXELS_PER_SECOND_def clamp_def maxTime_def
      split: option.splits)

text \<open>
  The theorem at \<open>t = 2\<close> on a timeline of duration 8.
\<close>

theorem pixel_round_trip_witness:
  "(0::rat) \<le> 2 \<and> 2 \<le> duration_ts (timeline_lit [scenario_a, scenario_b] 0 2) \<and>
   timeToPixel 2 = 100 \<and>
   pixelToTime (Some (timeline_lit [scenario_a, scenario_b] 0 2)) 100 = 2"
proof -
  let ?s = "timeline_lit [scenario_a, scenario_b] 0 2"
  have d: "duration_ts ?s = 8"
    by (simp add: timeline_lit_def totalDuration_def scenario_a_def scenario_b_def clip_lit_def)
  have h: "(0::rat) \<le> 2 \<and> 2 \<le> duration_ts ?s" unfolding d by simp
  have px: "timeToPixel 2 = 100" by (simp add: timeToPixel_def PIXELS_PER_SECOND_def)
  from pixel_round_trip [of 2 "Some ?s" 100 ?s] h
  have "pixelToTime (Some ?s) (timeToPixel 2) = 2" by blast
  with h px show ?thesis by simp
qed

text \<open>
  C9. Whatever the pointer coordinate, a click on the timeline surface issues exactly one
  seek, which the application sends to the backend, and its target lies between 0 and the
  timeline duration (a duration is not negative): it is 0 for a coordinate left of the
  origin, the duration for one beyond the end, and \<open>x / 50\<close> in between. The handler has
  no failing exit.
\<close>

theorem handleTimelineClick_clamped:
  assumes "0 \<le> duration_ts s"
  shows "\<exists>v. handleTimelineClick (Some s) e = [OnSeek v] \<and> 0 \<le> v \<and> v \<le> duration_ts s \<and>
     v = pixelToTime (Some s) (clientX e - rect_left e + scrollLeft e) \<and>
     v = (let time = (clientX e - rect_left e + scrollLeft e) / 50
          in if time < 0 then 0 else if duration_ts s < time then duration_ts s else time) \<and>
     appCallback (OnSeek v) app = (app, [Seek_timeline v])"
  using assms
  by (auto simp: handleTimelineClick_def pixelToTime_def PIXELS_PER_SECOND_def maxTime_def Let_def
      seekTo_def)

text \<open>
  The theorem on a timeline of duration 8: a click 900 pixels in (18 seconds) seeks to 8,
  and one 80 pixels left of the surface seeks to 0.
\<close>

theorem handleTimelineClick_clamped_witness:
  "0 \<le> duration_ts (timeline_lit [scenario_a, scenario_b] 0 2) \<and>
   handleTimelineClick (Some (timeline_lit [scenario_a, scenario_b] 0 2)) (click_lit 1000) = [OnSeek 8] \<and>
   handleTimelineClick (Some (timeline_lit [scenario_a, scenario_b] 0 2)) (click_lit 20) = [OnSeek 0]"
proof -
  let ?s = "timeline_lit [scenario_a, scenario_b] 0 2"
  have d: "duration_ts ?s = 8"
    by (simp add: timeline_lit_def totalDuration_def scenario_a_def scenario_b_def clip_lit_def)
  have h: "0 \<le> duration_ts ?s" unfolding d by simp
  from handleTimelineClick_clamped [OF h, of "click_lit 1000"]
  have hi: "handleTimelineClick (Some ?s) (click_lit 1000) = [OnSeek 8]"
    by (auto simp: d click_lit_def Let_def)
  from handleTimelineClick_clamped [OF h, of "click_lit 20"]
  have lo: "handleTimelineClick (Some ?s) (click_lit 20) = [OnSeek 0]"
    by (auto simp: d click_lit_def Let_def)
  from h hi lo show ?thesis by simp
qed

end
